theory Spec2Isabelle
  imports Complex_Main "HOL-Library.Char_ord" "HOL-Library.List_Lexorder"
    "HOL-Library.Product_Lexorder"
begin

section \<open>Python values\<close>

text \<open>
  The exceptions that the modelled code can raise. \<open>JSONDecodeError\<close> is what
  \<open>json.loads\<close> raises; the others are raised by the built-in operations the
  extractor uses (\<open>row[k]\<close>, \<open>item.get\<close>, \<open>float(x)\<close>, \<open>x * y\<close>, \<open>for x in y\<close>).
\<close>

datatype exn = JSONDecodeError | KeyError | TypeError | ValueError | AttributeError
  | OverflowError

text \<open>
  A Python float. Finite floats are represented by the rational number they denote and
  arithmetic on them is exact: binary64 rounding, overflow of a product to infinity and
  underflow are not modelled. The three non-finite floats are values of their own.
\<close>

datatype pyfloat = Fin rat | PosInf | NegInf | NaN

text \<open>
  The values that a row of the orders table or a decoded JSON document can hold.
  A dict is an association list read with \<open>map_of\<close>; its keys are strings, as in JSON.
\<close>

datatype pyval = PNone | PBool bool | PInt int | PFloat pyfloat | PStr string
  | PList "pyval list" | PDict "(string \<times> pyval) list"

text \<open>
  Three functions of Python's standard library are parameters of the model:
  \<open>json.loads\<close> (\<open>None\<close> stands for raising \<open>JSONDecodeError\<close>) and the parsing of
  a string by \<open>float\<close> and by \<open>int\<close> (\<open>None\<close> stands for raising \<open>ValueError\<close>).
\<close>

record pylib =
  json_loads :: "string \<Rightarrow> pyval option"
  float_of_str :: "string \<Rightarrow> pyfloat option"
  int_of_str :: "string \<Rightarrow> int option"

text \<open>Sequencing of operations that may raise: the first exception wins.\<close>

definition bnd :: "exn + 'a \<Rightarrow> ('a \<Rightarrow> exn + 'b) \<Rightarrow> exn + 'b" where
  "bnd m f = (case m of Inl e \<Rightarrow> Inl e | Inr x \<Rightarrow> f x)"

text \<open>\<open>d.get(k, dflt)\<close> on a dict.\<close>

definition dict_get :: "(string \<times> pyval) list \<Rightarrow> string \<Rightarrow> pyval \<Rightarrow> pyval" where
  "dict_get d k dflt = (case map_of d k of None \<Rightarrow> dflt | Some v \<Rightarrow> v)"

text \<open>\<open>item.get(k, dflt)\<close> on any value: only a dict has the attribute \<open>get\<close>.\<close>

fun py_get :: "pyval \<Rightarrow> string \<Rightarrow> pyval \<Rightarrow> exn + pyval" where
  "py_get (PDict d) k dflt = Inr (dict_get d k dflt)"
| "py_get v k dflt = Inl AttributeError"

text \<open>
  Conversion of an int to a float: ints of magnitude \<open>2^1024 - 2^970\<close> or more do not
  round to a finite binary64 value and raise \<open>OverflowError\<close>.
\<close>

definition int_to_float :: "int \<Rightarrow> exn + pyfloat" where
  "int_to_float i =
     (if 2 ^ 1024 - 2 ^ 970 \<le> \<bar>i\<bar> then Inl OverflowError else Inr (Fin (of_int i)))"

text \<open>\<open>float(v)\<close>.\<close>

fun py_float :: "pylib \<Rightarrow> pyval \<Rightarrow> exn + pyfloat" where
  "py_float L PNone = Inl TypeError"
| "py_float L (PBool b) = Inr (Fin (if b then 1 else 0))"
| "py_float L (PInt i) = int_to_float i"
| "py_float L (PFloat f) = Inr f"
| "py_float L (PStr s) =
     (case float_of_str L s of None \<Rightarrow> Inl ValueError | Some f \<Rightarrow> Inr f)"
| "py_float L (PList xs) = Inl TypeError"
| "py_float L (PDict d) = Inl TypeError"

text \<open>Multiplication of two floats, with the IEEE rules for the non-finite ones.\<close>

fun fmul :: "pyfloat \<Rightarrow> pyfloat \<Rightarrow> pyfloat" where
  "fmul NaN y = NaN"
| "fmul x NaN = NaN"
| "fmul (Fin a) (Fin b) = Fin (a * b)"
| "fmul (Fin a) PosInf = (if a = 0 then NaN else if 0 < a then PosInf else NegInf)"
| "fmul (Fin a) NegInf = (if a = 0 then NaN else if 0 < a then NegInf else PosInf)"
| "fmul PosInf (Fin b) = (if b = 0 then NaN else if 0 < b then PosInf else NegInf)"
| "fmul NegInf (Fin b) = (if b = 0 then NaN else if 0 < b then NegInf else PosInf)"
| "fmul PosInf PosInf = PosInf"
| "fmul PosInf NegInf = NegInf"
| "fmul NegInf PosInf = NegInf"
| "fmul NegInf NegInf = PosInf"

text \<open>
  \<open>f * v\<close> for a float \<open>f\<close>: an int or a bool is converted to a float first, a float
  is multiplied, and every other operand raises \<open>TypeError\<close>.
\<close>

fun py_mul :: "pyfloat \<Rightarrow> pyval \<Rightarrow> exn + pyfloat" where
  "py_mul f (PInt i) = bnd (int_to_float i) (\<lambda>g. Inr (fmul f g))"
| "py_mul f (PBool b) = Inr (fmul f (Fin (if b then 1 else 0)))"
| "py_mul f (PFloat g) = Inr (fmul f g)"
| "py_mul f v = Inl TypeError"

text \<open>
  \<open>for item in v\<close>: a list yields its elements, a dict its keys, a string its
  characters; the other values are not iterable.
\<close>

fun py_iter :: "pyval \<Rightarrow> exn + pyval list" where
  "py_iter (PList xs) = Inr xs"
| "py_iter (PDict d) = Inr (map PStr (remdups (map fst d)))"
| "py_iter (PStr s) = Inr (map (\<lambda>c. PStr [c]) s)"
| "py_iter v = Inl TypeError"

text \<open>
  A function applied to the elements of a list one after the other, as \<open>column.apply(f)\<close>
  does: the new values, or the first exception that \<open>f\<close> raises.
\<close>

fun apply_col :: "('a \<Rightarrow> exn + 'b) \<Rightarrow> 'a list \<Rightarrow> exn + 'b list" where
  "apply_col f [] = Inr []"
| "apply_col f (x # xs) = bnd (f x) (\<lambda>y. bnd (apply_col f xs) (\<lambda>ys. Inr (y # ys)))"

section \<open>The line-item extractor\<close>

text \<open>
  The orders table: its column labels and, for every order, the values of the columns.
  \<open>iterrows\<close> gives every row as a mapping from column label to value.
\<close>

record orders_df =
  df_columns :: "string list"
  df_rows :: "pyval list list"

type_synonym row = "(string \<times> pyval) list"

definition iterrows :: "orders_df \<Rightarrow> row list" where
  "iterrows df = map (zip (df_columns df)) (df_rows df)"

definition df_empty :: "orders_df \<Rightarrow> bool" where
  "df_empty df = (df_rows df = [] \<or> df_columns df = [])"

text \<open>\<open>row[k]\<close>: a label that the row does not have raises \<open>KeyError\<close>.\<close>

definition row_get :: "row \<Rightarrow> string \<Rightarrow> exn + pyval" where
  "row_get r k = (case map_of r k of None \<Rightarrow> Inl KeyError | Some v \<Rightarrow> Inr v)"

text \<open>The dict \<open>product_data\<close> built for one line item.\<close>

record product_data =
  order_id :: pyval
  order_date :: pyval
  channel :: pyval
  line_item_id :: pyval
  product_id :: pyval
  variant_id :: pyval
  sku :: pyval
  name :: pyval
  title :: pyval
  quantity :: pyval
  price :: pyfloat
  total_discount :: pyfloat
  line_total :: pyfloat

text \<open>
  The second default of \<open>title\<close> (the Spanish for "untitled"), in UTF-8: its
  accented letter i is the two bytes \<open>0xC3 0xAD\<close>.
\<close>

definition sin_titulo :: string where
  "sin_titulo = ''Sin t'' @ [CHR 0xC3, CHR 0xAD] @ ''tulo''"

text \<open>
  The dict display of lines 37 to 51, evaluated entry by entry in the order of the
  source, so that the first operation that raises decides the exception.
\<close>

definition make_product_data :: "pylib \<Rightarrow> row \<Rightarrow> pyval \<Rightarrow> exn + product_data" where
  "make_product_data L r item =
     bnd (row_get r ''id'') (\<lambda>v_order_id.
     bnd (row_get r ''date'') (\<lambda>v_order_date.
     bnd (row_get r ''channel'') (\<lambda>v_channel.
     bnd (py_get item ''id'' PNone) (\<lambda>v_line_item_id.
     bnd (py_get item ''product_id'' PNone) (\<lambda>v_product_id.
     bnd (py_get item ''variant_id'' PNone) (\<lambda>v_variant_id.
     bnd (py_get item ''sku'' (PStr ''N/A'')) (\<lambda>v_sku.
     bnd (py_get item ''name'' (PStr ''Sin nombre'')) (\<lambda>v_name.
     bnd (py_get item ''name'' (PStr sin_titulo)) (\<lambda>v_title_dflt.
     bnd (py_get item ''title'' v_title_dflt) (\<lambda>v_title.
     bnd (py_get item ''quantity'' (PInt 0)) (\<lambda>v_quantity.
     bnd (bnd (py_get item ''price'' (PInt 0)) (py_float L)) (\<lambda>v_price.
     bnd (bnd (py_get item ''total_discount'' (PInt 0)) (py_float L)) (\<lambda>v_discount.
     bnd (bnd (py_get item ''price'' (PInt 0)) (py_float L)) (\<lambda>v_price2.
     bnd (py_get item ''quantity'' (PInt 0)) (\<lambda>v_quantity2.
     bnd (py_mul v_price2 v_quantity2) (\<lambda>v_line_total.
     Inr \<lparr> order_id = v_order_id, order_date = v_order_date, channel = v_channel,
           line_item_id = v_line_item_id, product_id = v_product_id,
           variant_id = v_variant_id, sku = v_sku, name = v_name, title = v_title,
           quantity = v_quantity, price = v_price, total_discount = v_discount,
           line_total = v_line_total \<rparr>))))))))))))))))"

text \<open>
  The loop \<open>for item in items\<close>. Every finished item has been appended to \<open>all_items\<close>
  when a later item raises: the function returns the exception, if any, together with
  the list as it stands then.
\<close>

fun item_loop ::
  "pylib \<Rightarrow> row \<Rightarrow> pyval list \<Rightarrow> product_data list \<Rightarrow> exn option \<times> product_data list"
where
  "item_loop L r [] all_items = (None, all_items)"
| "item_loop L r (item # items) all_items =
     (case make_product_data L r item of
        Inl e \<Rightarrow> (Some e, all_items)
      | Inr pd \<Rightarrow> item_loop L r items (all_items @ [pd]))"

definition for_items ::
  "pylib \<Rightarrow> row \<Rightarrow> pyval \<Rightarrow> product_data list \<Rightarrow> exn option \<times> product_data list"
where
  "for_items L r items all_items =
     (case py_iter items of
        Inl e \<Rightarrow> (Some e, all_items)
      | Inr its \<Rightarrow> item_loop L r its all_items)"

text \<open>The body of the \<open>try\<close> statement, lines 28 to 52, for one row.\<close>

definition try_body ::
  "pylib \<Rightarrow> row \<Rightarrow> product_data list \<Rightarrow> exn option \<times> product_data list"
where
  "try_body L r all_items =
     (case row_get r ''line_items'' of
        Inl e \<Rightarrow> (Some e, all_items)
      | Inr (PStr s) \<Rightarrow>
          (case json_loads L s of
             None \<Rightarrow> (Some JSONDecodeError, all_items)
           | Some items \<Rightarrow> for_items L r items all_items)
      | Inr (PList xs) \<Rightarrow> for_items L r (PList xs) all_items
      | Inr v \<Rightarrow> (None, all_items))"

text \<open>The exceptions named by the \<open>except\<close> clause of line 54.\<close>

fun caught :: "exn \<Rightarrow> bool" where
  "caught JSONDecodeError = True"
| "caught KeyError = True"
| "caught TypeError = True"
| "caught e = False"

text \<open>
  One pass of the loop over the orders: the row's lines are added to \<open>all_items\<close>;
  a caught exception continues with the next row, any other exception leaves the
  function (\<open>Inl\<close>).
\<close>

definition order_step ::
  "pylib \<Rightarrow> row \<Rightarrow> product_data list \<Rightarrow> exn + product_data list"
where
  "order_step L r all_items =
     (case try_body L r all_items of
        (None, acc) \<Rightarrow> Inr acc
      | (Some e, acc) \<Rightarrow> if caught e then Inr acc else Inl e)"

fun order_loop :: "pylib \<Rightarrow> row list \<Rightarrow> product_data list \<Rightarrow> exn + product_data list" where
  "order_loop L [] all_items = Inr all_items"
| "order_loop L (r # rs) all_items =
     (case order_step L r all_items of
        Inl e \<Rightarrow> Inl e
      | Inr acc \<Rightarrow> order_loop L rs acc)"

text \<open>
  \<open>extract_line_items_from_orders\<close>. The result is the list of the rows of the
  returned table; the empty table \<open>pd.DataFrame()\<close> is the empty list. \<open>Inl e\<close> is the
  exception \<open>e\<close> leaving the function.
\<close>

definition extract_line_items_from_orders ::
  "pylib \<Rightarrow> orders_df \<Rightarrow> exn + product_data list"
where
  "extract_line_items_from_orders L df =
     (if df_empty df \<or> ''line_items'' \<notin> set (df_columns df) then Inr []
      else order_loop L (iterrows df) [])"

section \<open>The product ranker\<close>

text \<open>
  The four columns of \<open>items_df\<close> that \<open>get_top_products\<close> reads, typed as the
  transaction line of the specification: the SKU and the name are strings, the quantity
  is an int and the line total is a finite float. Keys that are missing (\<open>None\<close>, which
  \<open>groupby\<close> drops) and line totals that are not finite are outside this model.
\<close>

record items_row =
  item_sku :: string
  item_name :: string
  item_quantity :: int
  item_line_total :: rat

definition group_key :: "items_row \<Rightarrow> string \<times> string" where
  "group_key l = (item_sku l, item_name l)"

text \<open>
  The rows of the extractor's table that this model of the ranker covers, read as
  typed lines.
\<close>

definition as_items_row :: "product_data \<Rightarrow> items_row option" where
  "as_items_row l =
     (case sku l of
        PStr s \<Rightarrow>
          (case name l of
             PStr n \<Rightarrow>
               (case quantity l of
                  PInt q \<Rightarrow>
                    (case line_total l of
                       Fin t \<Rightarrow>
                         Some \<lparr> item_sku = s, item_name = n, item_quantity = q,
                                item_line_total = t \<rparr>
                     | other \<Rightarrow> None)
                | other \<Rightarrow> None)
           | other \<Rightarrow> None)
      | other \<Rightarrow> None)"

text \<open>
  \<open>items_df.groupby(['sku', 'name']).agg({'quantity': 'sum', 'line_total': 'sum'})
  .reset_index()\<close>: one row for every pair of keys that occurs, the pairs in ascending
  order, with the sums over the lines of the pair.
\<close>

record group_row =
  g_sku :: string
  g_name :: string
  g_quantity :: int
  g_line_total :: rat

definition groupby_agg :: "items_row list \<Rightarrow> group_row list" where
  "groupby_agg items =
     map (\<lambda>k. \<lparr> g_sku = fst k, g_name = snd k,
                 g_quantity = sum_list (map item_quantity (filter (\<lambda>l. group_key l = k) items)),
                 g_line_total =
                   sum_list (map item_line_total (filter (\<lambda>l. group_key l = k) items)) \<rparr>)
       (sort (remdups (map group_key items)))"

text \<open>
  \<open>sort_values('line_total', ascending=False)\<close>. The order of rows with equal totals
  is that of the sorting routine of numpy; the model keeps such rows in the order they
  had, as numpy's insertion sort does for a short table. No property below depends on
  the order of equal rows.
\<close>

definition sort_values_desc :: "group_row list \<Rightarrow> group_row list" where
  "sort_values_desc rows = sort_key (\<lambda>r. - g_line_total r) rows"

text \<open>Rounding to the nearest integer, ties to the even one, as numpy's \<open>rint\<close>.\<close>

definition rint :: "rat \<Rightarrow> int" where
  "rint x =
     (let n = \<lfloor>x\<rfloor>; d = x - of_int n
      in if d < 1 / 2 then n else if 1 / 2 < d then n + 1 else if even n then n else n + 1)"

text \<open>
  Division of one finite float by another in numpy: dividing by zero raises nothing
  and gives an infinity, or \<open>NaN\<close> for \<open>0 / 0\<close>.
\<close>

definition fdiv :: "rat \<Rightarrow> rat \<Rightarrow> pyfloat" where
  "fdiv a b =
     (if b = 0 then (if a = 0 then NaN else if 0 < a then PosInf else NegInf)
      else Fin (a / b))"

text \<open>\<open>.round(2)\<close>: scale by 100, round to the nearest integer, scale back.\<close>

fun round2 :: "pyfloat \<Rightarrow> pyfloat" where
  "round2 (Fin x) = Fin (of_int (rint (x * 100)) / 100)"
| "round2 f = f"

text \<open>\<open>(line_total / total_sales * 100).round(2)\<close> for one row.\<close>

definition pct_total :: "rat \<Rightarrow> rat \<Rightarrow> pyfloat" where
  "pct_total x total_sales = round2 (fmul (fdiv x total_sales) (Fin 100))"

text \<open>
  The table \<open>product_summary\<close> once the column \<open>pct_total\<close> is added (line 90): all
  the groups, by descending total, every one with its share of the total of all groups.
\<close>

definition product_summary :: "items_row list \<Rightarrow> (group_row \<times> pyfloat) list" where
  "product_summary items =
     (let sorted_rows = sort_values_desc (groupby_agg items);
          total_sales = sum_list (map g_line_total sorted_rows)
      in map (\<lambda>r. (r, pct_total (g_line_total r) total_sales)) sorted_rows)"

text \<open>
  \<open>df.head(n)\<close>: the first \<open>n\<close> rows, and for a negative \<open>n\<close> all rows but the last
  \<open>-n\<close>.
\<close>

definition head :: "int \<Rightarrow> 'a list \<Rightarrow> 'a list" where
  "head n xs = (if 0 \<le> n then take (nat n) xs else take (length xs - nat (- n)) xs)"

text \<open>
  A row of the returned table: its index label, which is the rank, and the five
  columns under their new names.
\<close>

record product_row =
  rank_index :: int
  SKU :: string
  Producto :: string
  Unidades :: int
  Ventas :: rat
  Pct :: pyfloat

text \<open>
  \<open>reset_index(drop=True)\<close>, \<open>index + 1\<close> and the renaming of the columns: the rows
  are numbered from 1.
\<close>

definition rename_rows :: "(group_row \<times> pyfloat) list \<Rightarrow> product_row list" where
  "rename_rows rows =
     map (\<lambda>(i, (r, p)). \<lparr> rank_index = int i + 1, SKU = g_sku r, Producto = g_name r,
                           Unidades = g_quantity r, Ventas = g_line_total r, Pct = p \<rparr>)
       (enumerate 0 rows)"

text \<open>
  \<open>get_top_products\<close>, as the rows of the table it returns; the empty table
  \<open>pd.DataFrame()\<close> is the empty list.
\<close>

definition get_top_products :: "items_row list \<Rightarrow> int \<Rightarrow> product_row list" where
  "get_top_products items top_n =
     (if items = [] then [] else rename_rows (head top_n (product_summary items)))"

section \<open>Tables as mutable objects\<close>

text \<open>
  A DataFrame is an object that its holders share: an assignment to a column, to the
  index or to the column labels changes the table for every holder. Tables live in a
  heap, a reference is a position in it, and a new table is put at the end.
\<close>

datatype cell = IntCell int | FloatCell pyfloat | StrCell string

text \<open>A row of a table with the columns of the returned ranking.\<close>

record table_row =
  t_index :: int
  t_SKU :: string
  t_Producto :: string
  t_Unidades :: cell
  t_Ventas :: cell
  t_Pct :: cell

text \<open>
  A row of the table \<open>product_summary\<close>: the index label, the four columns of the
  grouping and the column \<open>pct_total\<close>, which the table has only after line 90.
\<close>

record summary_row =
  s_index :: int
  s_sku :: string
  s_name :: string
  s_quantity :: int
  s_line_total :: rat
  s_pct_total :: "pyfloat option"

datatype frame = ItemsDF "items_row list" | SummaryDF "summary_row list"
  | ProductDF "table_row list"

type_synonym heap = "frame list"
type_synonym ref = nat

definition alloc :: "heap \<Rightarrow> frame \<Rightarrow> heap \<times> ref" where
  "alloc h f = (h @ [f], length h)"

text \<open>The table that \<open>get_top_products\<close> returns, as an object of the heap.\<close>

definition as_table_row :: "product_row \<Rightarrow> table_row" where
  "as_table_row r =
     \<lparr> t_index = rank_index r, t_SKU = SKU r, t_Producto = Producto r,
       t_Unidades = IntCell (Unidades r), t_Ventas = FloatCell (Fin (Ventas r)),
       t_Pct = FloatCell (Pct r) \<rparr>"

subsection \<open>The ranker, statement by statement\<close>

text \<open>
  The lines that \<open>get_top_products\<close> reads from the table it is given. A table with
  the columns \<open>sku\<close>, \<open>name\<close>, \<open>quantity\<close> and \<open>line_total\<close> has them; a table that is
  not empty and lacks them makes \<open>groupby\<close> raise \<open>KeyError\<close>.
\<close>

fun frame_items :: "frame \<Rightarrow> exn + items_row list" where
  "frame_items (ItemsDF items) = Inr items"
| "frame_items (SummaryDF rows) =
     Inr (map (\<lambda>r. \<lparr> item_sku = s_sku r, item_name = s_name r, item_quantity = s_quantity r,
                       item_line_total = s_line_total r \<rparr>) rows)"
| "frame_items (ProductDF rows) = (if rows = [] then Inr [] else Inl KeyError)"

text \<open>
  The rows of the table that a local variable of the ranker refers to; the references
  of these variables are to tables of this kind.
\<close>

fun summary_rows :: "frame \<Rightarrow> summary_row list" where
  "summary_rows (SummaryDF rows) = rows"
| "summary_rows f = []"

text \<open>Lines 80 to 83: the grouping with \<open>reset_index()\<close>, a new table with the index 0, 1, ...\<close>

definition groupby_table :: "items_row list \<Rightarrow> summary_row list" where
  "groupby_table items =
     map (\<lambda>(i, g). \<lparr> s_index = int i, s_sku = g_sku g, s_name = g_name g,
                       s_quantity = g_quantity g, s_line_total = g_line_total g,
                       s_pct_total = None \<rparr>)
       (enumerate 0 (groupby_agg items))"

text \<open>
  Line 86: \<open>sort_values\<close> returns a new table with the rows in the order that the
  sorting routine of numpy gives them. The routine is a parameter of the call, a
  function of the table; \<open>stable_sorter\<close> is the routine that keeps rows with equal
  totals in the order they had, which \<open>sort_values_desc\<close> follows.
\<close>

type_synonym sorter = "summary_row list \<Rightarrow> summary_row list"

definition stable_sorter :: sorter where
  "stable_sorter rows = sort_key (\<lambda>r. - s_line_total r) rows"

text \<open>Lines 89 and 90: the total and the new column, assigned to the table itself.\<close>

definition assign_pct_total :: "summary_row list \<Rightarrow> summary_row list" where
  "assign_pct_total rows =
     (let total_sales = sum_list (map s_line_total rows)
      in map (\<lambda>r. r\<lparr>s_pct_total := Some (pct_total (s_line_total r) total_sales)\<rparr>) rows)"

text \<open>Line 93: \<open>reset_index(drop=True)\<close> numbers the rows of the new table from 0.\<close>

definition reset_index_drop :: "summary_row list \<Rightarrow> summary_row list" where
  "reset_index_drop rows = map (\<lambda>(i, r). r\<lparr>s_index := int i\<rparr>) (enumerate 0 rows)"

text \<open>Line 94: the index of the table is replaced by the index plus one.\<close>

definition shift_index :: "summary_row list \<Rightarrow> summary_row list" where
  "shift_index rows = map (\<lambda>r. r\<lparr>s_index := s_index r + 1\<rparr>) rows"

text \<open>
  Line 97: five labels are assigned to the columns of the table; a table without the
  column \<open>pct_total\<close> has four columns, and the assignment raises \<open>ValueError\<close>.
\<close>

definition rename_row :: "summary_row \<Rightarrow> exn + table_row" where
  "rename_row r =
     (case s_pct_total r of
        None \<Rightarrow> Inl ValueError
      | Some p \<Rightarrow>
          Inr \<lparr> t_index = s_index r, t_SKU = s_sku r, t_Producto = s_name r,
                t_Unidades = IntCell (s_quantity r), t_Ventas = FloatCell (Fin (s_line_total r)),
                t_Pct = FloatCell p \<rparr>)"

text \<open>
  A call of \<open>get_top_products\<close> on the table at \<open>items_df\<close>, statement by statement.
  The methods \<open>groupby\<close>, \<open>sort_values\<close>, \<open>head\<close> and \<open>reset_index\<close> return new tables;
  the assignments of lines 90, 94 and 97 change the table that the variable refers to
  at that point: \<open>r_summary\<close> and \<open>r_top\<close> are the references that the variables
  \<open>product_summary\<close> (from line 86 on) and \<open>top_products\<close> hold. The function returns the
  reference of \<open>top_products\<close>.
\<close>

definition call_get_top_products ::
  "sorter \<Rightarrow> heap \<Rightarrow> ref \<Rightarrow> int \<Rightarrow> heap \<times> (exn + ref)"
where
  "call_get_top_products srt h items_df top_n =
     (case frame_items (h ! items_df) of
        Inl e \<Rightarrow> (h, Inl e)
      | Inr items \<Rightarrow>
          if items = [] then (case alloc h (ProductDF []) of (h', r) \<Rightarrow> (h', Inr r))
          else
            (case alloc h (SummaryDF (groupby_table items)) of
               (h1, r_grouped) \<Rightarrow>
            (case alloc h1 (SummaryDF (srt (summary_rows (h1 ! r_grouped)))) of
               (h2, r_summary) \<Rightarrow>
            let h3 = h2[r_summary :=
                        SummaryDF (assign_pct_total (summary_rows (h2 ! r_summary)))]
            in
            (case alloc h3 (SummaryDF (reset_index_drop
                      (head top_n (summary_rows (h3 ! r_summary))))) of
               (h4, r_top) \<Rightarrow>
            let h5 = h4[r_top :=
                        SummaryDF (shift_index (summary_rows (h4 ! r_top)))]
            in
            (case apply_col rename_row (summary_rows (h5 ! r_top)) of
               Inl e \<Rightarrow> (h5, Inl e)
             | Inr rows \<Rightarrow> (h5[r_top := ProductDF rows], Inr r_top))))))"

section \<open>Presentation formatting\<close>

text \<open>The decimal digits of a natural number.\<close>

function str_nat :: "nat \<Rightarrow> string" where
  "str_nat n =
     (if n < 10 then [char_of (48 + n)] else str_nat (n div 10) @ [char_of (48 + n mod 10)])"
  by pat_completeness auto
termination
  by (relation "measure id") auto

declare str_nat.simps [simp del]

text \<open>The option \<open>,\<close> of a format specification: a comma before every group of three digits.\<close>

fun group3 :: "string \<Rightarrow> string" where
  "group3 (a # b # c # d # ds) = a # b # c # CHR '','' # group3 (d # ds)"
| "group3 ds = ds"

definition thousands :: "string \<Rightarrow> string" where
  "thousands ds = rev (group3 (rev ds))"

text \<open>
  The presentation type \<open>f\<close> with \<open>d\<close> decimals of a finite float: the number is rounded
  to \<open>d\<close> decimals, ties to even, and a negative number keeps its sign when it rounds to
  zero.
\<close>

definition fmt_fixed :: "bool \<Rightarrow> nat \<Rightarrow> rat \<Rightarrow> string" where
  "fmt_fixed grouped d x =
     (let n = nat (rint (\<bar>x\<bar> * 10 ^ d));
          ip = str_nat (n div 10 ^ d);
          fp = str_nat (n mod 10 ^ d)
      in (if x < 0 then ''-'' else []) @ (if grouped then thousands ip else ip) @
         (if d = 0 then [] else ''.'' @ replicate (d - length fp) CHR ''0'' @ fp))"

fun fmt_float :: "bool \<Rightarrow> nat \<Rightarrow> pyfloat \<Rightarrow> string" where
  "fmt_float grouped d (Fin x) = fmt_fixed grouped d x"
| "fmt_float grouped d PosInf = ''inf''"
| "fmt_float grouped d NegInf = ''-inf''"
| "fmt_float grouped d NaN = ''nan''"

text \<open>
  The presentation type \<open>f\<close> applied to a cell: an int is converted to a float first, and
  a string has no such presentation type (\<open>ValueError\<close>).
\<close>

fun fmt_f :: "bool \<Rightarrow> nat \<Rightarrow> cell \<Rightarrow> exn + string" where
  "fmt_f grouped d (IntCell i) = bnd (int_to_float i) (\<lambda>f. Inr (fmt_float grouped d f))"
| "fmt_f grouped d (FloatCell f) = Inr (fmt_float grouped d f)"
| "fmt_f grouped d (StrCell s) = Inl ValueError"

text \<open>\<open>int(x)\<close> of a cell: a float is truncated towards zero.\<close>

fun py_int :: "pylib \<Rightarrow> cell \<Rightarrow> exn + int" where
  "py_int L (IntCell i) = Inr i"
| "py_int L (FloatCell (Fin x)) = Inr (if 0 \<le> x then \<lfloor>x\<rfloor> else \<lceil>x\<rceil>)"
| "py_int L (FloatCell NaN) = Inl ValueError"
| "py_int L (FloatCell f) = Inl OverflowError"
| "py_int L (StrCell s) = (case int_of_str L s of None \<Rightarrow> Inl ValueError | Some i \<Rightarrow> Inr i)"

text \<open>The three functions applied to the columns, lines 116 to 118.\<close>

definition fmt_ventas :: "cell \<Rightarrow> exn + string" where
  "fmt_ventas x = bnd (fmt_f True 2 x) (\<lambda>s. Inr (''$'' @ s))"

definition fmt_pct :: "cell \<Rightarrow> exn + string" where
  "fmt_pct x = bnd (fmt_f False 1 x) (\<lambda>s. Inr (s @ ''%''))"

definition fmt_unidades :: "pylib \<Rightarrow> cell \<Rightarrow> exn + string" where
  "fmt_unidades L x =
     bnd (py_int L x)
       (\<lambda>i. Inr ((if i < 0 then ''-'' else []) @ thousands (str_nat (nat \<bar>i\<bar>))))"

text \<open>
  \<open>format_product_table\<close>: three assignments to columns of the table \<open>df\<close> itself, one
  after the other; an assignment that is done stays done when a later one raises. The
  function returns the reference it was given.
\<close>

definition format_product_table :: "pylib \<Rightarrow> heap \<Rightarrow> ref \<Rightarrow> heap \<times> (exn + ref)" where
  "format_product_table L h df =
     (case h ! df of
        ItemsDF items \<Rightarrow> if items = [] then (h, Inr df) else (h, Inl KeyError)
      | SummaryDF srows \<Rightarrow> if srows = [] then (h, Inr df) else (h, Inl KeyError)
      | ProductDF rows \<Rightarrow>
          if rows = [] then (h, Inr df)
          else
            (case apply_col fmt_ventas (map t_Ventas rows) of
               Inl e \<Rightarrow> (h, Inl e)
             | Inr vs \<Rightarrow>
                 let rows1 = map (\<lambda>(r, v). r\<lparr>t_Ventas := StrCell v\<rparr>) (zip rows vs);
                     h1 = h[df := ProductDF rows1]
                 in (case apply_col fmt_pct (map t_Pct rows1) of
                       Inl e \<Rightarrow> (h1, Inl e)
                     | Inr ps \<Rightarrow>
                         let rows2 = map (\<lambda>(r, p). r\<lparr>t_Pct := StrCell p\<rparr>) (zip rows1 ps);
                             h2 = h1[df := ProductDF rows2]
                         in (case apply_col (fmt_unidades L) (map t_Unidades rows2) of
                               Inl e \<Rightarrow> (h2, Inl e)
                             | Inr us \<Rightarrow>
                                 let rows3 =
                                   map (\<lambda>(r, u). r\<lparr>t_Unidades := StrCell u\<rparr>) (zip rows2 us)
                                 in (h2[df := ProductDF rows3], Inr df)))))"

section \<open>Notions used in the statements\<close>

text \<open>The pair of SKU and name of a row of a group table and of the returned table.\<close>

definition g_key :: "group_row \<Rightarrow> string \<times> string" where
  "g_key g = (g_sku g, g_name g)"

definition row_key :: "product_row \<Rightarrow> string \<times> string" where
  "row_key r = (SKU r, Producto r)"

text \<open>The table that a call returns, read in the heap the call leaves.\<close>

definition returned :: "heap \<times> (exn + ref) \<Rightarrow> exn + frame" where
  "returned res = (case res of (h, Inl e) \<Rightarrow> Inl e | (h, Inr r) \<Rightarrow> Inr (h ! r))"

text \<open>
  The rows of \<open>top_products\<close> before the columns are renamed, and the table that a call
  on a table with the lines \<open>items\<close> returns, or the exception it raises, as functions of
  the sorting routine, the lines and \<open>top_n\<close>.
\<close>

definition ranked_rows :: "sorter \<Rightarrow> items_row list \<Rightarrow> int \<Rightarrow> summary_row list" where
  "ranked_rows srt items top_n =
     shift_index (reset_index_drop (head top_n (assign_pct_total (srt (groupby_table items)))))"

definition ranked_table :: "sorter \<Rightarrow> items_row list \<Rightarrow> int \<Rightarrow> exn + frame" where
  "ranked_table srt items top_n =
     (if items = [] then Inr (ProductDF [])
      else case apply_col rename_row (ranked_rows srt items top_n) of
             Inl e \<Rightarrow> Inl e
           | Inr rows \<Rightarrow> Inr (ProductDF rows))"

text \<open>
  A row of the ranking with its three numeric columns as display text: the amount with
  a dollar sign, grouped thousands and two decimals, the percentage with one decimal and
  a percent sign, the units as a grouped integer.
\<close>

definition formatted_row :: "product_row \<Rightarrow> table_row" where
  "formatted_row r =
     \<lparr> t_index = rank_index r, t_SKU = SKU r, t_Producto = Producto r,
       t_Unidades =
         StrCell ((if Unidades r < 0 then ''-'' else []) @ thousands (str_nat (nat \<bar>Unidades r\<bar>))),
       t_Ventas = StrCell (''$'' @ fmt_fixed True 2 (Ventas r)),
       t_Pct = StrCell (fmt_float False 1 (Pct r) @ ''%'') \<rparr>"

section \<open>Statements about the extractor\<close>

text \<open>
  The values that the loop \<open>for item in items\<close> ranges over for a row: the elements of
  a native list, or what iterating the decoded JSON document yields; none when the
  field is of another type, does not decode or is not iterable.
\<close>

definition items_of_row :: "pylib \<Rightarrow> row \<Rightarrow> pyval list" where
  "items_of_row L r =
     (case row_get r ''line_items'' of
        Inr (PStr s) \<Rightarrow>
          (case json_loads L s of
             None \<Rightarrow> []
           | Some items \<Rightarrow> (case py_iter items of Inl e \<Rightarrow> [] | Inr its \<Rightarrow> its))
      | Inr (PList xs) \<Rightarrow> xs
      | other \<Rightarrow> [])"

text \<open>
  A transaction line \<open>l\<close> comes from an item map \<open>d\<close> of one of the rows \<open>rs\<close>, its
  price is \<open>float(d.get('price', 0))\<close>, its quantity is \<open>d.get('quantity', 0)\<close> and its
  line total is the product of the two.
\<close>

definition line_of :: "pylib \<Rightarrow> row list \<Rightarrow> product_data \<Rightarrow> bool" where
  "line_of L rs l =
     (\<exists>r \<in> set rs. \<exists>d. PDict d \<in> set (items_of_row L r) \<and>
        py_float L (dict_get d ''price'' (PInt 0)) = Inr (price l) \<and>
        quantity l = dict_get d ''quantity'' (PInt 0) \<and>
        py_mul (price l) (quantity l) = Inr (line_total l))"

section \<open>Example data\<close>

text \<open>
  An instance of the library parameters for examples whose payloads are native lists
  and whose numbers are ints: it rejects every string, as Python rejects the two
  strings used below, \<^verbatim>\<open>{not valid\<close> for \<open>json.loads\<close> and \<^verbatim>\<open>abc\<close> for \<open>float\<close>.
\<close>

definition strict_lib :: pylib where
  "strict_lib =
     \<lparr> json_loads = (\<lambda>s. None), float_of_str = (\<lambda>s. None), int_of_str = (\<lambda>s. None) \<rparr>"

definition order_cols :: "string list" where
  "order_cols = [''id'', ''date'', ''channel'', ''line_items'']"

text \<open>The two orders of the scenario of section 8 of the specification.\<close>

definition order_A :: "pyval list" where
  "order_A = [PInt 1, PStr ''2024-01-01'', PStr ''web'',
     PList [PDict [(''sku'', PStr ''X1''), (''name'', PStr ''Widget''),
                   (''price'', PInt 10), (''quantity'', PInt 2)]]]"

definition order_B :: "pyval list" where
  "order_B = [PInt 2, PStr ''2024-01-02'', PStr ''web'', PStr ''{not valid'']"

definition line_A :: product_data where
  "line_A = \<lparr> order_id = PInt 1, order_date = PStr ''2024-01-01'', channel = PStr ''web'',
      line_item_id = PNone, product_id = PNone, variant_id = PNone, sku = PStr ''X1'',
      name = PStr ''Widget'', title = PStr ''Widget'', quantity = PInt 2, price = Fin 10,
      total_discount = Fin 0, line_total = Fin 20 \<rparr>"

text \<open>An order whose only item has a price that is not a number.\<close>

definition order_bad_price :: "pyval list" where
  "order_bad_price = [PInt 3, PStr ''2024-01-03'', PStr ''web'',
     PList [PDict [(''sku'', PStr ''X2''), (''price'', PStr ''abc''), (''quantity'', PInt 1)]]]"

text \<open>
  An order with two items: the first is well formed, the second has a quantity that
  is not a number.
\<close>

definition order_partial :: "pyval list" where
  "order_partial = [PInt 1, PStr ''2024-01-01'', PStr ''web'',
     PList [PDict [(''sku'', PStr ''X1''), (''name'', PStr ''Widget''),
                   (''price'', PInt 10), (''quantity'', PInt 2)],
            PDict [(''sku'', PStr ''X3''), (''price'', PInt 5), (''quantity'', PNone)]]]"

text \<open>The three products of the second scenario of section 8, with totals 50, 30 and 20.\<close>

definition three_products :: "items_row list" where
  "three_products =
     [\<lparr> item_sku = ''C3'', item_name = ''Crate'', item_quantity = 4, item_line_total = 20 \<rparr>,
      \<lparr> item_sku = ''A1'', item_name = ''Anvil'', item_quantity = 1, item_line_total = 50 \<rparr>,
      \<lparr> item_sku = ''B2'', item_name = ''Bolt'', item_quantity = 3, item_line_total = 30 \<rparr>]"

text \<open>Two lines of two products.\<close>

definition two_skus :: "items_row list" where
  "two_skus =
     [\<lparr> item_sku = ''A1'', item_name = ''Anvil'', item_quantity = 1, item_line_total = 50 \<rparr>,
      \<lparr> item_sku = ''B2'', item_name = ''Bolt'', item_quantity = 3, item_line_total = 30 \<rparr>]"

text \<open>The same SKU under two names.\<close>

definition two_names :: "items_row list" where
  "two_names =
     [\<lparr> item_sku = ''X1'', item_name = ''Widget'', item_quantity = 2, item_line_total = 20 \<rparr>,
      \<lparr> item_sku = ''X1'', item_name = ''Widget v2'', item_quantity = 1, item_line_total = 5 \<rparr>,
      \<lparr> item_sku = ''X1'', item_name = ''Widget'', item_quantity = 3, item_line_total = 30 \<rparr>]"

section \<open>Properties of the extractor\<close>

lemmas run_extractor =
  extract_line_items_from_orders_def df_empty_def iterrows_def order_step_def try_body_def
  for_items_def row_get_def make_product_data_def bnd_def dict_get_def int_to_float_def
  strict_lib_def order_cols_def

lemma order_loop_skip:
  assumes "\<And>acc. order_step L r acc = Inr acc"
  shows "order_loop L (pre @ r # post) acc = order_loop L (pre @ post) acc"
  by (induction pre arbitrary: acc) (auto simp: assms split: sum.splits)

subsection \<open>Orders without their own fields\<close>

lemma make_product_data_missing:
  assumes "map_of r ''id'' = None \<or> map_of r ''date'' = None \<or> map_of r ''channel'' = None"
  shows "make_product_data L r item = Inl KeyError"
  using assms
  by (auto simp: make_product_data_def bnd_def row_get_def split: option.splits)

lemma item_loop_missing:
  assumes "map_of r ''id'' = None \<or> map_of r ''date'' = None \<or> map_of r ''channel'' = None"
  shows "item_loop L r its acc = (if its = [] then None else Some KeyError, acc)"
  by (cases its) (simp_all add: make_product_data_missing [OF assms])

lemma for_items_missing:
  assumes "map_of r ''id'' = None \<or> map_of r ''date'' = None \<or> map_of r ''channel'' = None"
  shows "\<exists>x. for_items L r v acc = (x, acc) \<and> (\<forall>e. x = Some e \<longrightarrow> caught e)"
  by (cases "py_iter v")
    (auto simp: for_items_def item_loop_missing [OF assms] elim: py_iter.elims)

lemma try_body_missing:
  assumes "map_of r ''id'' = None \<or> map_of r ''date'' = None \<or> map_of r ''channel'' = None"
  shows "\<exists>x. try_body L r acc = (x, acc) \<and> (\<forall>e. x = Some e \<longrightarrow> caught e)"
  using for_items_missing [OF assms]
  by (auto simp: try_body_def row_get_def split: option.splits pyval.splits sum.splits)

text \<open>
  C10. An order that lacks its identifier, its date or its channel contributes no
  transaction line and raises nothing: the list of lines is after the order what it was
  before. The \<open>KeyError\<close> of the first item is caught by the handler that also catches
  the failure to decode the payload. This holds whatever the line-items field holds, and
  in particular when it is a list of item maps.
\<close>

theorem order_missing_metadata_skipped:
  assumes "map_of r ''id'' = None \<or> map_of r ''date'' = None \<or> map_of r ''channel'' = None"
  shows "order_step L r acc = Inr acc"
  using try_body_missing [OF assms, of L acc]
  by (auto simp: order_step_def split: option.splits)

theorem order_missing_metadata_skipped_witness:
  "map_of (zip [''date'', ''channel'', ''line_items''] (tl order_A)) ''id'' = None \<and>
   order_step strict_lib (zip [''date'', ''channel'', ''line_items''] (tl order_A)) [line_A]
     = Inr [line_A]"
  using order_missing_metadata_skipped
    [of "zip [''date'', ''channel'', ''line_items''] (tl order_A)" strict_lib "[line_A]"]
  by (simp add: order_A_def)

text \<open>
  In a table all orders have the same columns: a table without one of the three
  columns yields no line at all.
\<close>

lemma order_loop_missing:
  assumes "\<And>r. r \<in> set rs \<Longrightarrow>
    map_of r ''id'' = None \<or> map_of r ''date'' = None \<or> map_of r ''channel'' = None"
  shows "order_loop L rs acc = Inr acc"
  using assms
proof (induction rs)
  case Nil
  then show ?case by simp
next
  case (Cons r rs)
  have "map_of r ''id'' = None \<or> map_of r ''date'' = None \<or> map_of r ''channel'' = None"
    using Cons.prems by simp
  from try_body_missing [OF this, of L acc] have "order_step L r acc = Inr acc"
    by (auto simp: order_step_def split: option.splits)
  with Cons show ?case by simp
qed

lemma table_without_order_column:
  assumes "k \<in> {''id'', ''date'', ''channel''}" and "k \<notin> set (df_columns df)"
  shows "extract_line_items_from_orders L df = Inr []"
proof -
  have "map_of (zip (df_columns df) v) k = None" for v
    using assms(2) by (metis map_of_eq_None_iff set_zip_leftD prod.collapse imageE)
  then have "order_loop L (iterrows df) [] = Inr []"
    using assms(1) by (intro order_loop_missing) (auto simp: iterrows_def)
  then show ?thesis
    by (simp add: extract_line_items_from_orders_def)
qed

subsection \<open>Orders whose payload does not decode\<close>

text \<open>
  C4. An order whose line-items field is a string that \<open>json.loads\<close> rejects
  contributes no transaction line, and the orders after it are processed as if it were
  not there: the result for the whole table is the result for the table without that
  order.
\<close>

theorem malformed_json_order_skipped:
  assumes "map_of (zip cols v) ''line_items'' = Some (PStr s)" and "json_loads L s = None"
  shows "order_step L (zip cols v) acc = Inr acc \<and>
    extract_line_items_from_orders L \<lparr> df_columns = cols, df_rows = pre @ v # post \<rparr> =
    extract_line_items_from_orders L \<lparr> df_columns = cols, df_rows = pre @ post \<rparr>"
proof -
  have step: "order_step L (zip cols v) a = Inr a" for a
    using assms by (simp add: order_step_def try_body_def row_get_def)
  have "''line_items'' \<in> set cols"
    using assms(1) by (meson map_of_SomeD set_zip_leftD)
  then have ne: "cols \<noteq> []" by auto
  have "order_loop L (map (zip cols) pre @ zip cols v # map (zip cols) post) [] =
        order_loop L (map (zip cols) pre @ map (zip cols) post) []"
    by (rule order_loop_skip) (rule step)
  moreover have "order_loop L [zip cols v] [] = Inr []"
    by (simp add: step)
  ultimately show ?thesis
    using step ne by (auto simp: extract_line_items_from_orders_def df_empty_def iterrows_def)
qed

theorem malformed_json_order_skipped_witness:
  "map_of (zip order_cols order_B) ''line_items'' = Some (PStr ''{not valid'') \<and>
   json_loads strict_lib ''{not valid'' = None \<and>
   order_step strict_lib (zip order_cols order_B) [] = Inr [] \<and>
   extract_line_items_from_orders strict_lib
     \<lparr> df_columns = order_cols, df_rows = [order_B, order_A] \<rparr> =
   extract_line_items_from_orders strict_lib
     \<lparr> df_columns = order_cols, df_rows = [order_A] \<rparr>"
  using malformed_json_order_skipped
    [of order_cols order_B "''{not valid''" strict_lib "[]" "[]" "[order_A]"]
  by (simp add: order_cols_def order_B_def strict_lib_def)

text \<open>
  The scenario of the specification: order A followed by the malformed order B yields
  the one line of A, with line total 20.
\<close>

lemma scenario_A_B:
  "extract_line_items_from_orders strict_lib
     \<lparr> df_columns = order_cols, df_rows = [order_A, order_B] \<rparr> = Inr [line_A]"
  by (simp add: run_extractor order_A_def order_B_def line_A_def)

subsection \<open>The line total\<close>

lemma make_product_data_fields:
  assumes "make_product_data L r item = Inr l"
  shows "\<exists>d. item = PDict d \<and>
        py_float L (dict_get d ''price'' (PInt 0)) = Inr (price l) \<and>
        quantity l = dict_get d ''quantity'' (PInt 0) \<and>
        py_mul (price l) (quantity l) = Inr (line_total l)"
proof (cases item)
  case (PDict d)
  with assms show ?thesis
    by (auto simp: make_product_data_def bnd_def split: sum.splits)
qed (use assms in \<open>auto simp: make_product_data_def bnd_def split: sum.splits\<close>)

lemma item_loop_lines:
  assumes "item_loop L r its acc = (x, ls)" "l \<in> set ls"
  shows "l \<in> set acc \<or> (\<exists>item \<in> set its. make_product_data L r item = Inr l)"
  using assms
proof (induction its arbitrary: acc)
  case Nil
  then show ?case by simp
next
  case (Cons item its)
  show ?case
  proof (cases "make_product_data L r item")
    case (Inl e)
    with Cons.prems show ?thesis by simp
  next
    case (Inr pd)
    with Cons.prems have "item_loop L r its (acc @ [pd]) = (x, ls)" by simp
    from Cons.IH [OF this Cons.prems(2)] Inr show ?thesis by auto
  qed
qed

lemma try_body_lines:
  assumes "try_body L r acc = (x, ls)" "l \<in> set ls"
  shows "l \<in> set acc \<or> (\<exists>item \<in> set (items_of_row L r). make_product_data L r item = Inr l)"
  using assms
  by (auto simp: try_body_def items_of_row_def for_items_def
      split: sum.splits pyval.splits option.splits dest: item_loop_lines)

lemma order_step_lines:
  assumes "order_step L r acc = Inr ls" "l \<in> set ls"
  shows "l \<in> set acc \<or> (\<exists>item \<in> set (items_of_row L r). make_product_data L r item = Inr l)"
proof -
  obtain x where "try_body L r acc = (x, ls)"
    using assms(1) by (auto simp: order_step_def split: prod.splits option.splits if_splits)
  from try_body_lines [OF this assms(2)] show ?thesis .
qed

lemma order_loop_lines:
  assumes "order_loop L rs acc = Inr ls" "l \<in> set ls"
  shows "l \<in> set acc \<or>
    (\<exists>r \<in> set rs. \<exists>item \<in> set (items_of_row L r). make_product_data L r item = Inr l)"
  using assms
proof (induction rs arbitrary: acc)
  case Nil
  then show ?case by simp
next
  case (Cons r rs)
  from Cons.prems(1) obtain acc' where s: "order_step L r acc = Inr acc'"
    and l: "order_loop L rs acc' = Inr ls"
    by (auto split: sum.splits)
  from Cons.IH [OF l Cons.prems(2)] order_step_lines [OF s] show ?case by auto
qed

text \<open>
  C8. Every transaction line that the extractor returns was built from an item map of
  one of the orders, and its line total is its unit price times its quantity: the
  unit price is \<open>float\<close> of the item's \<open>price\<close>, or of 0 when the item has none, and the
  quantity is the item's \<open>quantity\<close> as it stands, or 0 when the item has none.
\<close>

theorem line_total_is_price_times_quantity:
  assumes "extract_line_items_from_orders L df = Inr ls" and "l \<in> set ls"
  shows "line_of L (iterrows df) l"
proof -
  from assms have "order_loop L (iterrows df) [] = Inr ls"
    by (auto simp: extract_line_items_from_orders_def split: if_splits)
  from order_loop_lines [OF this assms(2)]
  obtain r item where "r \<in> set (iterrows df)" "item \<in> set (items_of_row L r)"
    "make_product_data L r item = Inr l" by auto
  with make_product_data_fields [of L r item l] show ?thesis
    unfolding line_of_def by blast
qed

theorem line_total_is_price_times_quantity_witness:
  "extract_line_items_from_orders strict_lib
     \<lparr> df_columns = order_cols, df_rows = [order_A] \<rparr> = Inr [line_A] \<and>
   line_A \<in> set [line_A] \<and>
   line_of strict_lib (iterrows \<lparr> df_columns = order_cols, df_rows = [order_A] \<rparr>) line_A \<and>
   py_mul (price line_A) (quantity line_A) = Inr (Fin 20)"
proof -
  have e: "extract_line_items_from_orders strict_lib
     \<lparr> df_columns = order_cols, df_rows = [order_A] \<rparr> = Inr [line_A]"
    by (simp add: run_extractor order_A_def line_A_def)
  have m: "line_A \<in> set [line_A]" by simp
  have "py_mul (price line_A) (quantity line_A) = Inr (Fin 20)"
    by (simp add: line_A_def int_to_float_def bnd_def)
  with e m line_total_is_price_times_quantity [OF e m] show ?thesis by simp
qed

subsection \<open>Exceptions that leave the extractor\<close>

text \<open>
  C1. The handler of line 54 names \<open>JSONDecodeError\<close>, \<open>KeyError\<close> and \<open>TypeError\<close>.
  The \<open>ValueError\<close> that \<open>float\<close> raises on a string that is not a number is none of
  them: on a table whose only order has an item with the price \<^verbatim>\<open>abc\<close> the
  exception leaves the extractor, also when a well-formed order comes first.
\<close>

theorem bad_price_raises_value_error:
  "extract_line_items_from_orders strict_lib
     \<lparr> df_columns = order_cols, df_rows = [order_A, order_bad_price] \<rparr> = Inl ValueError"
  by (simp add: run_extractor order_A_def order_bad_price_def)

text \<open>
  The same for every instance of the library that rejects the string: the pass of the
  loop for that order ends with the exception, whatever lines were collected before.
\<close>

lemma bad_price_step:
  assumes "float_of_str L ''abc'' = None"
  shows "order_step L (zip order_cols order_bad_price) acc = Inl ValueError"
  using assms
  by (simp add: order_step_def try_body_def for_items_def row_get_def make_product_data_def
      bnd_def dict_get_def order_cols_def order_bad_price_def)

text \<open>
  An exception that is caught at a later item of an order leaves the lines of the
  earlier items of that order in the result: the order is skipped from that item on.
\<close>

lemma partial_order_keeps_first_items:
  "extract_line_items_from_orders strict_lib
     \<lparr> df_columns = order_cols, df_rows = [order_partial] \<rparr> = Inr [line_A]"
  by (simp add: run_extractor order_partial_def line_A_def)


section \<open>Properties of the ranker\<close>

subsection \<open>The shape of the tables\<close>

lemma length_groupby_agg:
  "length (groupby_agg items) = card (group_key ` set items)"
proof -
  have "length (groupby_agg items) = length (remdups (map group_key items))"
    by (simp add: groupby_agg_def)
  also have "\<dots> = card (set (map group_key items))"
    by (simp only: length_remdups_card_conv)
  finally show ?thesis by simp
qed

lemma length_product_summary:
  "length (product_summary items) = card (group_key ` set items)"
  by (simp add: product_summary_def Let_def sort_values_desc_def length_groupby_agg)

lemma map_fst_product_summary:
  "map fst (product_summary items) = sort_values_desc (groupby_agg items)"
  by (simp add: product_summary_def Let_def comp_def)

lemma sorted_desc_sort_values:
  "sorted_wrt (\<lambda>a b. b \<le> a) (map g_line_total (sort_values_desc rows))"
proof -
  have "sorted (map (\<lambda>r. - g_line_total r) (sort_values_desc rows))"
    by (simp add: sort_values_desc_def)
  then have "sorted_wrt (\<lambda>a b. - g_line_total a \<le> - g_line_total b) (sort_values_desc rows)"
    by (simp add: sorted_map)
  then show ?thesis
    by (simp add: sorted_wrt_map)
qed

lemma length_head:
  "length (head n xs) = (if 0 \<le> n then min (nat n) (length xs) else length xs - nat (- n))"
  by (auto simp: head_def)

lemma head_is_take: "\<exists>k. head n xs = take k xs"
  by (auto simp: head_def)

lemma length_rename_rows: "length (rename_rows rows) = length rows"
  by (simp add: rename_rows_def)

lemma nth_rename_rows:
  assumes "i < length rows"
  shows "rename_rows rows ! i =
    \<lparr> rank_index = int i + 1, SKU = g_sku (fst (rows ! i)), Producto = g_name (fst (rows ! i)),
      Unidades = g_quantity (fst (rows ! i)), Ventas = g_line_total (fst (rows ! i)),
      Pct = snd (rows ! i) \<rparr>"
  using assms by (simp add: rename_rows_def nth_enumerate_eq split: prod.splits)

lemma map_rank_index_rename_rows:
  "map rank_index (rename_rows rows) = map int [1..<Suc (length rows)]"
  by (rule nth_equalityI) (simp_all add: length_rename_rows nth_rename_rows del: upt_Suc)

lemma map_Ventas_rename_rows:
  "map Ventas (rename_rows rows) = map (g_line_total \<circ> fst) rows"
  by (rule nth_equalityI) (simp_all add: length_rename_rows nth_rename_rows)

lemma rename_rows_take: "rename_rows (take k rows) = take k (rename_rows rows)"
  by (rule nth_equalityI) (simp_all add: length_rename_rows nth_rename_rows)

lemma sorted_wrt_take: "sorted_wrt P xs \<Longrightarrow> sorted_wrt P (take n xs)"
  by (metis append_take_drop_id sorted_wrt_append)

subsection \<open>Ranks and order\<close>

text \<open>
  C5. For a table of lines that is not empty and \<open>top_n\<close> of at least 1, the result has
  \<open>k = min(top_n, number of groups)\<close> rows, where the groups are the pairs of SKU and
  name that occur; its index labels are 1, 2, ..., \<open>k\<close> in this order; and the totals
  do not increase from one row to the next.
\<close>

theorem top_products_ranks:
  assumes "items \<noteq> []" and "1 \<le> top_n"
  shows "length (get_top_products items top_n) = min (nat top_n) (card (group_key ` set items)) \<and>
    map rank_index (get_top_products items top_n) =
      map int [1..<Suc (min (nat top_n) (card (group_key ` set items)))] \<and>
    sorted_wrt (\<lambda>a b. b \<le> a) (map Ventas (get_top_products items top_n))"
proof -
  let ?S = "product_summary items"
  have len: "length (head top_n ?S) = min (nat top_n) (card (group_key ` set items))"
    using assms(2) by (simp add: length_head length_product_summary)
  obtain k where k: "head top_n ?S = take k ?S"
    using head_is_take by blast
  have "sorted_wrt (\<lambda>a b. b \<le> a) (map g_line_total (map fst ?S))"
    by (simp only: map_fst_product_summary sorted_desc_sort_values)
  then have "sorted_wrt (\<lambda>a b. b \<le> a) (take k (map (g_line_total \<circ> fst) ?S))"
    by (intro sorted_wrt_take) simp
  then have "sorted_wrt (\<lambda>a b. b \<le> a) (map (g_line_total \<circ> fst) (head top_n ?S))"
    by (simp add: k take_map)
  with len assms(1) show ?thesis
    by (simp add: get_top_products_def length_rename_rows map_rank_index_rename_rows
        map_Ventas_rename_rows del: upt_Suc)
qed

theorem top_products_ranks_witness:
  "three_products \<noteq> [] \<and> (1::int) \<le> 2 \<and>
   length (get_top_products three_products 2) = 2 \<and>
   map rank_index (get_top_products three_products 2) = [1, 2] \<and>
   sorted_wrt (\<lambda>a b. b \<le> a) (map Ventas (get_top_products three_products 2))"
proof -
  have ne: "three_products \<noteq> []" by (simp add: three_products_def)
  have c: "card (group_key ` set three_products) = 3"
    by (simp add: three_products_def group_key_def)
  from top_products_ranks [OF ne, of 2] ne c show ?thesis
    by (simp add: numeral_2_eq_2)
qed

text \<open>
  The second scenario of the specification: of the products with totals 50, 30 and 20
  the two best are returned, with ranks 1 and 2 and shares 50 and 30.
\<close>

lemma scenario_three_products:
  "get_top_products three_products 2 =
     [\<lparr> rank_index = 1, SKU = ''A1'', Producto = ''Anvil'', Unidades = 1, Ventas = 50,
        Pct = Fin 50 \<rparr>,
      \<lparr> rank_index = 2, SKU = ''B2'', Producto = ''Bolt'', Unidades = 3, Ventas = 30,
        Pct = Fin 30 \<rparr>]"
  by code_simp

text \<open>
  The first scenario of the specification, continued: the line of order A, ranked with
  \<open>top_n = 5\<close>, is the one product with rank 1 and share 100.
\<close>

lemma scenario_A_ranked:
  "as_items_row line_A =
     Some \<lparr> item_sku = ''X1'', item_name = ''Widget'', item_quantity = 2, item_line_total = 20 \<rparr> \<and>
   get_top_products
     [\<lparr> item_sku = ''X1'', item_name = ''Widget'', item_quantity = 2, item_line_total = 20 \<rparr>] 5 =
     [\<lparr> rank_index = 1, SKU = ''X1'', Producto = ''Widget'', Unidades = 2, Ventas = 20,
        Pct = Fin 100 \<rparr>]"
  by code_simp


subsection \<open>A number of rows that is not positive\<close>

text \<open>
  C2, as the code has it. For \<open>top_n = 0\<close> the result is empty. For a negative \<open>top_n\<close>
  the result is the whole ranking without its last \<open>-top_n\<close> rows, as \<open>head\<close> defines
  it: it is empty only when there are no more than \<open>-top_n\<close> groups.
\<close>

theorem top_products_nonpositive:
  assumes "top_n \<le> 0"
  shows "get_top_products items top_n =
      (if top_n = 0 then []
       else take (card (group_key ` set items) - nat (- top_n))
              (get_top_products items (int (card (group_key ` set items))))) \<and>
    length (get_top_products items top_n) =
      (if top_n = 0 then 0 else card (group_key ` set items) - nat (- top_n))"
proof (cases "items = []")
  case True
  then show ?thesis by (simp add: get_top_products_def)
next
  case False
  let ?S = "product_summary items"
  let ?G = "card (group_key ` set items)"
  have h: "head top_n ?S = (if top_n = 0 then [] else take (?G - nat (- top_n)) ?S)"
    using assms by (auto simp: head_def length_product_summary)
  have full: "head (int ?G) ?S = ?S"
    by (simp add: head_def length_product_summary)
  have r0: "rename_rows [] = []"
    by (simp add: rename_rows_def)
  show ?thesis
    using False by (auto simp: get_top_products_def h full rename_rows_take r0
        length_rename_rows length_product_summary)
qed

theorem top_products_nonpositive_witness:
  "(- 1 :: int) \<le> 0 \<and> length (get_top_products two_skus (- 1)) = 1"
proof -
  have c: "card (group_key ` set two_skus) = 2"
    by (simp add: two_skus_def group_key_def)
  have "(- 1 :: int) \<le> 0" by simp
  from top_products_nonpositive [OF this, of two_skus, THEN conjunct2] c show ?thesis
    by simp
qed

text \<open>
  The claim C2 as stated fails: two products and \<open>top_n = -1\<close> give a result that is
  not empty (the first product).
\<close>

theorem negative_top_n_not_empty: "get_top_products two_skus (- 1) \<noteq> []"
  by code_simp

subsection \<open>Grouping\<close>

lemma map_g_key_groupby_agg:
  "map g_key (groupby_agg items) = sort (remdups (map group_key items))"
  by (simp add: groupby_agg_def g_key_def comp_def)

lemma distinct_map_sort_key:
  "distinct (map f (sort_key g xs)) = distinct (map f xs)"
  by (simp add: distinct_map)

lemma keys_sorted_rows:
  "distinct (map g_key (sort_values_desc (groupby_agg items)))"
  "set (map g_key (sort_values_desc (groupby_agg items))) = group_key ` set items"
proof -
  have "distinct (map g_key (groupby_agg items))"
    by (simp add: map_g_key_groupby_agg)
  then show "distinct (map g_key (sort_values_desc (groupby_agg items)))"
    by (simp add: sort_values_desc_def distinct_map_sort_key)
  have "set (map g_key (sort_values_desc (groupby_agg items))) = set (map g_key (groupby_agg items))"
    by (simp add: sort_values_desc_def)
  then show "set (map g_key (sort_values_desc (groupby_agg items))) = group_key ` set items"
    by (simp only: map_g_key_groupby_agg) simp
qed

lemma sums_groupby_agg:
  assumes "g \<in> set (groupby_agg items)"
  shows "g_quantity g = sum_list (map item_quantity (filter (\<lambda>l. group_key l = g_key g) items)) \<and>
    g_line_total g = sum_list (map item_line_total (filter (\<lambda>l. group_key l = g_key g) items))"
  using assms by (auto simp: groupby_agg_def g_key_def)

lemma map_row_key_rename_rows:
  "map row_key (rename_rows rows) = map (g_key \<circ> fst) rows"
  by (rule nth_equalityI)
    (simp_all add: length_rename_rows nth_rename_rows row_key_def g_key_def)

lemma rename_rows_row:
  assumes "r \<in> set (rename_rows rows)"
  shows "\<exists>g p. (g, p) \<in> set rows \<and> row_key r = g_key g \<and> Unidades r = g_quantity g \<and>
    Ventas r = g_line_total g"
proof -
  from assms obtain i where i: "i < length rows" "r = rename_rows rows ! i"
    by (metis in_set_conv_nth length_rename_rows)
  then have "(fst (rows ! i), snd (rows ! i)) \<in> set rows"
    by simp
  with i show ?thesis
    by (auto simp: nth_rename_rows row_key_def g_key_def simp del: prod.collapse)
qed

lemma head_rename_rows: "head n (rename_rows rows) = rename_rows (head n rows)"
  by (simp add: head_def rename_rows_take length_rename_rows)

text \<open>
  C6. The ranker groups the lines by the pair of SKU and name and sums within each
  group. For every \<open>top_n\<close>, no two rows of the result have the same pair, and every row
  of the result has a pair that occurs among the lines, with the sum of the quantities
  and the sum of the line totals of the lines of that pair; the result is the first
  rows, as \<open>head(top_n)\<close> takes them, of the ranking of all groups, which is the result
  for \<open>top_n\<close> equal to the number of groups. The ranking of all groups has a row for
  every pair that occurs, so two lines with the same SKU and different names have two
  different rows in it.
\<close>

theorem grouped_by_sku_and_name:
  "distinct (map row_key (get_top_products items top_n)) \<and>
   (\<forall>r \<in> set (get_top_products items top_n).
      row_key r \<in> group_key ` set items \<and>
      Unidades r = sum_list (map item_quantity (filter (\<lambda>l. group_key l = row_key r) items)) \<and>
      Ventas r = sum_list (map item_line_total (filter (\<lambda>l. group_key l = row_key r) items))) \<and>
   get_top_products items top_n =
     head top_n (get_top_products items (int (card (group_key ` set items)))) \<and>
   set (map row_key (get_top_products items (int (card (group_key ` set items))))) =
     group_key ` set items \<and>
   (\<forall>l1 \<in> set items. \<forall>l2 \<in> set items.
      item_sku l1 = item_sku l2 \<and> item_name l1 \<noteq> item_name l2 \<longrightarrow>
      (\<exists>r1 \<in> set (get_top_products items (int (card (group_key ` set items)))).
       \<exists>r2 \<in> set (get_top_products items (int (card (group_key ` set items)))).
          r1 \<noteq> r2 \<and> SKU r1 = item_sku l1 \<and> Producto r1 = item_name l1 \<and>
          SKU r2 = item_sku l1 \<and> Producto r2 = item_name l2))"
proof (cases "items = []")
  case True
  then show ?thesis by (simp add: get_top_products_def head_def)
next
  case False
  let ?S = "product_summary items"
  let ?F = "get_top_products items (int (card (group_key ` set items)))"
  let ?R = "get_top_products items top_n"
  have full: "head (int (card (group_key ` set items))) ?S = ?S"
    by (simp add: head_def length_product_summary)
  then have F: "?F = rename_rows ?S"
    using False by (simp add: get_top_products_def)
  have "?R = rename_rows (head top_n ?S)"
    using False by (simp add: get_top_products_def)
  moreover have "head top_n ?F = rename_rows (head top_n ?S)"
    by (simp only: F head_rename_rows)
  ultimately have R: "?R = head top_n ?F"
    by simp
  obtain k where k: "?R = take k ?F"
    unfolding R using head_is_take by blast
  have keys: "map row_key ?F = map g_key (sort_values_desc (groupby_agg items))"
    by (simp add: F map_row_key_rename_rows map_fst_product_summary [symmetric])
  have dF: "distinct (map row_key ?F)" and sF: "set (map row_key ?F) = group_key ` set items"
    by (simp_all only: keys keys_sorted_rows)
  have d: "distinct (map row_key ?R)"
    unfolding k using dF by (simp add: take_map [symmetric] del: take_map)
  have sub: "set ?R \<subseteq> set ?F"
    unfolding k by (rule set_take_subset)
  have sums: "row_key r \<in> group_key ` set items \<and>
       Unidades r = sum_list (map item_quantity (filter (\<lambda>l. group_key l = row_key r) items)) \<and>
       Ventas r = sum_list (map item_line_total (filter (\<lambda>l. group_key l = row_key r) items))"
    if "r \<in> set ?R" for r
  proof -
    from that sub have rF: "r \<in> set ?F" by blast
    then have key: "row_key r \<in> group_key ` set items"
      using sF by auto
    from rF obtain g p where g: "(g, p) \<in> set ?S" "row_key r = g_key g"
      "Unidades r = g_quantity g" "Ventas r = g_line_total g"
      unfolding F using rename_rows_row by blast
    from g(1) have "g \<in> set (map fst ?S)" by force
    then have "g \<in> set (groupby_agg items)"
      by (simp add: map_fst_product_summary sort_values_desc_def)
    from sums_groupby_agg [OF this] g key show ?thesis by simp
  qed
  have two: "\<exists>r1 \<in> set ?F. \<exists>r2 \<in> set ?F.
          r1 \<noteq> r2 \<and> SKU r1 = item_sku l1 \<and> Producto r1 = item_name l1 \<and>
          SKU r2 = item_sku l1 \<and> Producto r2 = item_name l2"
    if "l1 \<in> set items" "l2 \<in> set items" "item_sku l1 = item_sku l2"
      "item_name l1 \<noteq> item_name l2" for l1 l2
  proof -
    have "group_key l1 \<in> set (map row_key ?F)" "group_key l2 \<in> set (map row_key ?F)"
      using that sF by auto
    then obtain r1 r2 where r: "r1 \<in> set ?F" "row_key r1 = group_key l1"
      "r2 \<in> set ?F" "row_key r2 = group_key l2"
      by auto
    with that have "r1 \<noteq> r2 \<and> SKU r1 = item_sku l1 \<and> Producto r1 = item_name l1 \<and>
          SKU r2 = item_sku l1 \<and> Producto r2 = item_name l2"
      by (auto simp: row_key_def group_key_def)
    with r(1,3) show ?thesis
      by blast
  qed
  from d sums R sF two show ?thesis
    by blast
qed

theorem grouped_by_sku_and_name_witness:
  "distinct (map row_key (get_top_products two_names 1)) \<and>
   get_top_products two_names 1 =
     head 1 (get_top_products two_names (int (card (group_key ` set two_names)))) \<and>
   set (map row_key (get_top_products two_names (int (card (group_key ` set two_names))))) =
     group_key ` set two_names \<and>
   map row_key (get_top_products two_names 2) = [(''X1'', ''Widget''), (''X1'', ''Widget v2'')] \<and>
   map Unidades (get_top_products two_names 2) = [5, 1] \<and>
   map Ventas (get_top_products two_names 2) = [50, 5]"
proof -
  have k: "map row_key (get_top_products two_names 2) = [(''X1'', ''Widget''), (''X1'', ''Widget v2'')]"
    by code_simp
  have u: "map Unidades (get_top_products two_names 2) = [5, 1]"
    by code_simp
  have v: "map Ventas (get_top_products two_names 2) = [50, 5]"
    by code_simp
  from grouped_by_sku_and_name [of two_names 1] have
    "distinct (map row_key (get_top_products two_names 1))"
    "get_top_products two_names 1 =
       head 1 (get_top_products two_names (int (card (group_key ` set two_names))))"
    "set (map row_key (get_top_products two_names (int (card (group_key ` set two_names))))) =
       group_key ` set two_names"
    by blast+
  with k u v show ?thesis
    by blast
qed

text \<open>
  For the lines of one SKU under two names the ranking of all groups has two rows, and
  \<open>top_n = 1\<close> returns the first of them.
\<close>

lemma same_sku_two_names_top_1:
  "card (group_key ` set two_names) = 2 \<and>
   get_top_products two_names 1 =
     [\<lparr> rank_index = 1, SKU = ''X1'', Producto = ''Widget'', Unidades = 5, Ventas = 50,
        Pct = Fin (9091 / 100) \<rparr>]"
  by code_simp

section \<open>Properties of the calls on the heap\<close>

subsection \<open>Repeated calls of the ranker\<close>

lemma apply_col_map:
  assumes "\<And>x. x \<in> set xs \<Longrightarrow> f (c x) = Inr (g x)"
  shows "apply_col f (map c xs) = Inr (map g xs)"
  using assms by (induction xs) (simp_all add: bnd_def)

lemma apply_col_defined:
  assumes "\<And>x. x \<in> set xs \<Longrightarrow> \<exists>y. f x = Inr y"
  shows "\<exists>ys. apply_col f xs = Inr ys"
  using assms
proof (induction xs)
  case Nil
  then show ?case by simp
next
  case (Cons x xs)
  then obtain y ys where "f x = Inr y" "apply_col f xs = Inr ys"
    by (metis list.set_intros)
  then show ?case by (simp add: bnd_def)
qed

text \<open>
  What a call does to the heap: the three new tables come after the tables that were
  there, and the assignments of lines 90, 94 and 97 fall on the new tables.
\<close>

lemma call_on_lines:
  assumes "a < length h" and "h ! a = ItemsDF items" and "items \<noteq> []"
  shows "call_get_top_products srt h a n =
    (case apply_col rename_row (ranked_rows srt items n) of
       Inl e \<Rightarrow>
         (h @ [SummaryDF (groupby_table items),
               SummaryDF (assign_pct_total (srt (groupby_table items))),
               SummaryDF (ranked_rows srt items n)], Inl e)
     | Inr rows \<Rightarrow>
         (h @ [SummaryDF (groupby_table items),
               SummaryDF (assign_pct_total (srt (groupby_table items))),
               ProductDF rows], Inr (length h + 2)))"
  using assms
  by (simp add: call_get_top_products_def alloc_def Let_def ranked_rows_def nth_append
      list_update_append split: sum.splits)

lemma call_on_no_lines:
  assumes "a < length h" and "h ! a = ItemsDF []"
  shows "call_get_top_products srt h a n = (h @ [ProductDF []], Inr (length h))"
  using assms by (simp add: call_get_top_products_def alloc_def)

lemma returned_call:
  assumes "a < length h" and "h ! a = ItemsDF items"
  shows "returned (call_get_top_products srt h a n) = ranked_table srt items n"
proof (cases "items = []")
  case True
  with assms show ?thesis
    by (simp add: call_on_no_lines returned_def ranked_table_def)
next
  case False
  with assms show ?thesis
    by (simp add: call_on_lines returned_def ranked_table_def nth_append split: sum.splits)
qed

lemma frame_call:
  assumes "a < length h" and "h ! a = ItemsDF items"
  shows "take (length h) (fst (call_get_top_products srt h a n)) = h"
proof (cases "items = []")
  case True
  with assms show ?thesis
    by (simp add: call_on_no_lines)
next
  case False
  with assms show ?thesis
    by (simp add: call_on_lines split: sum.splits)
qed

text \<open>The column \<open>pct_total\<close> is there when the columns are renamed: line 97 raises nothing.\<close>

lemma pct_shift_index: "map s_pct_total (shift_index xs) = map s_pct_total xs"
  by (simp add: shift_index_def comp_def)

lemma pct_reset_index_drop: "map s_pct_total (reset_index_drop xs) = map s_pct_total xs"
  by (rule nth_equalityI) (simp_all add: reset_index_drop_def nth_enumerate_eq)

lemma ranked_rows_have_pct:
  assumes "r \<in> set (ranked_rows srt items n)"
  shows "\<exists>p. s_pct_total r = Some p"
proof -
  let ?A = "assign_pct_total (srt (groupby_table items))"
  obtain k where k: "head n ?A = take k ?A"
    using head_is_take by blast
  have "s_pct_total r \<in> set (map s_pct_total (ranked_rows srt items n))"
    using assms by simp
  then have "s_pct_total r \<in> set (map s_pct_total (take k ?A))"
    by (simp only: ranked_rows_def pct_shift_index pct_reset_index_drop k)
  then have "s_pct_total r \<in> set (map s_pct_total ?A)"
    by (auto dest: in_set_takeD)
  then show ?thesis
    by (auto simp: assign_pct_total_def Let_def)
qed

lemma ranked_table_defined: "\<exists>t. ranked_table srt items n = Inr t"
proof -
  have "\<exists>rows. apply_col rename_row (ranked_rows srt items n) = Inr rows"
    by (rule apply_col_defined) (auto simp: rename_row_def dest: ranked_rows_have_pct)
  then show ?thesis
    by (auto simp: ranked_table_def)
qed

text \<open>
  C9. Whatever the sorting routine, as long as it is a function of the table: a call of
  the ranker on a table of lines returns a table and raises nothing; a second call with
  the same arguments, in the heap that the first call leaves, returns an equal table; a
  call on an equal table of lines in any other heap returns an equal table; and the
  tables that were in the heap before the call, the table of lines among them, are
  after the call what they were before. The assignments of lines 90, 94 and 97 change
  only tables that the call has created.
\<close>

theorem get_top_products_deterministic:
  assumes "a < length h" and "h ! a = ItemsDF items"
    and "a' < length h'" and "h' ! a' = ItemsDF items"
  shows "(\<exists>t. returned (call_get_top_products srt h a n) = Inr t) \<and>
    returned (call_get_top_products srt (fst (call_get_top_products srt h a n)) a n) =
      returned (call_get_top_products srt h a n) \<and>
    returned (call_get_top_products srt h' a' n) = returned (call_get_top_products srt h a n) \<and>
    take (length h) (fst (call_get_top_products srt h a n)) = h"
proof -
  let ?h1 = "fst (call_get_top_products srt h a n)"
  have t: "take (length h) ?h1 = h"
    by (rule frame_call [OF assms(1,2)])
  then have "length h \<le> length ?h1"
    by (metis length_take min.cobounded1)
  with assms(1) have a1: "a < length ?h1" by simp
  have "?h1 ! a = take (length h) ?h1 ! a"
    using assms(1) by simp
  then have a2: "?h1 ! a = ItemsDF items"
    using assms(2) t by simp
  have "\<exists>t. returned (call_get_top_products srt h a n) = Inr t"
    by (simp only: returned_call [OF assms(1,2)] ranked_table_defined)
  moreover have "returned (call_get_top_products srt ?h1 a n) =
      returned (call_get_top_products srt h a n)"
    by (simp only: returned_call [OF a1 a2] returned_call [OF assms(1,2)])
  moreover have "returned (call_get_top_products srt h' a' n) =
      returned (call_get_top_products srt h a n)"
    by (simp only: returned_call [OF assms(1,2)] returned_call [OF assms(3,4)])
  ultimately show ?thesis
    using t by blast
qed

theorem get_top_products_deterministic_witness:
  "(0::nat) < length [ItemsDF three_products] \<and>
   [ItemsDF three_products] ! 0 = ItemsDF three_products \<and>
   (1::nat) < length [ProductDF [], ItemsDF three_products] \<and>
   [ProductDF [], ItemsDF three_products] ! 1 = ItemsDF three_products \<and>
   returned (call_get_top_products stable_sorter
      (fst (call_get_top_products stable_sorter [ItemsDF three_products] 0 2)) 0 2) =
     returned (call_get_top_products stable_sorter [ItemsDF three_products] 0 2) \<and>
   returned (call_get_top_products stable_sorter [ProductDF [], ItemsDF three_products] 1 2) =
     returned (call_get_top_products stable_sorter [ItemsDF three_products] 0 2) \<and>
   take (length [ItemsDF three_products])
     (fst (call_get_top_products stable_sorter [ItemsDF three_products] 0 2)) =
     [ItemsDF three_products]"
proof -
  have a: "(0::nat) < length [ItemsDF three_products]"
    and b: "[ItemsDF three_products] ! 0 = ItemsDF three_products"
    and c: "(1::nat) < length [ProductDF [], ItemsDF three_products]"
    and d: "[ProductDF [], ItemsDF three_products] ! 1 = ItemsDF three_products"
    by simp_all
  from get_top_products_deterministic [OF a b c d, of stable_sorter 2] a b c d show ?thesis
    by blast
qed

text \<open>
  The call, run on the three products: the heap it leaves holds the table of lines as
  it was, the two tables of the grouping and the returned table.
\<close>

lemma call_three_products:
  "call_get_top_products stable_sorter [ItemsDF three_products] 0 2 =
     ([ItemsDF three_products,
       SummaryDF (groupby_table three_products),
       SummaryDF (assign_pct_total (stable_sorter (groupby_table three_products))),
       ProductDF
         [\<lparr> t_index = 1, t_SKU = ''A1'', t_Producto = ''Anvil'', t_Unidades = IntCell 1,
            t_Ventas = FloatCell (Fin 50), t_Pct = FloatCell (Fin 50) \<rparr>,
          \<lparr> t_index = 2, t_SKU = ''B2'', t_Producto = ''Bolt'', t_Unidades = IntCell 3,
            t_Ventas = FloatCell (Fin 30), t_Pct = FloatCell (Fin 30) \<rparr>]], Inr 3)"
  by code_simp

subsection \<open>The call and the table of the ranker\<close>

lemma insort_key_map:
  "insort_key f (c x) (map c xs) = map c (insort_key (\<lambda>y. f (c y)) x xs)"
  by (induction xs) simp_all

lemma sort_key_map: "sort_key f (map c xs) = map c (sort_key (\<lambda>y. f (c y)) xs)"
  by (induction xs) (simp_all add: insort_key_map)

lemma head_map: "head n (map f xs) = map f (head n xs)"
  by (simp add: head_def take_map)

lemma ranked_rows_stable:
  fixes items n
  defines "S \<equiv> sort_values_desc (groupby_agg items)"
  defines "T \<equiv> sum_list (map g_line_total S)"
  shows "ranked_rows stable_sorter items n =
    map (\<lambda>(j, g). \<lparr> s_index = int j + 1, s_sku = g_sku g, s_name = g_name g,
                     s_quantity = g_quantity g, s_line_total = g_line_total g,
                     s_pct_total = Some (pct_total (g_line_total g) T) \<rparr>)
      (enumerate 0 (head n S))"
proof -
  define mk_row where "mk_row = (\<lambda>(i::nat, g::group_row).
     \<lparr> s_index = int i, s_sku = g_sku g, s_name = g_name g, s_quantity = g_quantity g,
       s_line_total = g_line_total g, s_pct_total = None \<rparr>)"
  define E where "E = sort_key (\<lambda>y. - g_line_total (snd y)) (enumerate 0 (groupby_agg items))"
  have gt: "groupby_table items = map mk_row (enumerate 0 (groupby_agg items))"
    by (simp add: groupby_table_def mk_row_def)
  have "(\<lambda>y. - s_line_total (mk_row y)) = (\<lambda>y. - g_line_total (snd y))"
    by (auto simp: mk_row_def fun_eq_iff)
  then have st: "stable_sorter (groupby_table items) = map mk_row E"
    by (simp add: stable_sorter_def gt sort_key_map E_def)
  have "sort_key (\<lambda>g. - g_line_total g) (map snd (enumerate 0 (groupby_agg items))) = map snd E"
    unfolding E_def by (rule sort_key_map)
  then have sE: "map snd E = S"
    by (simp add: S_def sort_values_desc_def)
  have "map s_line_total (map mk_row E) = map g_line_total (map snd E)"
    by (simp add: mk_row_def split_beta)
  then have tot: "sum_list (map s_line_total (map mk_row E)) = T"
    by (simp only: sE T_def)
  have hd: "map snd (head n E) = head n S"
    by (simp only: head_map [symmetric] sE)
  have len: "length (head n E) = length (head n S)"
    by (metis hd length_map)
  have rr: "ranked_rows stable_sorter items n =
    shift_index (reset_index_drop (map (\<lambda>r. r\<lparr>s_pct_total := Some (pct_total (s_line_total r) T)\<rparr>)
      (map mk_row (head n E))))"
    by (simp only: ranked_rows_def st assign_pct_total_def tot Let_def head_map)
  show ?thesis
  proof (rule nth_equalityI)
    show "length (ranked_rows stable_sorter items n) =
      length (map (\<lambda>(j, g). \<lparr> s_index = int j + 1, s_sku = g_sku g, s_name = g_name g,
                     s_quantity = g_quantity g, s_line_total = g_line_total g,
                     s_pct_total = Some (pct_total (g_line_total g) T) \<rparr>)
      (enumerate 0 (head n S)))"
      by (simp add: rr shift_index_def reset_index_drop_def len)
  next
    fix j assume "j < length (ranked_rows stable_sorter items n)"
    then have j: "j < length (head n E)"
      by (simp add: rr shift_index_def reset_index_drop_def)
    then have "snd (head n E ! j) = head n S ! j"
      by (metis hd nth_map)
    with j len show "ranked_rows stable_sorter items n ! j =
      map (\<lambda>(j, g). \<lparr> s_index = int j + 1, s_sku = g_sku g, s_name = g_name g,
                     s_quantity = g_quantity g, s_line_total = g_line_total g,
                     s_pct_total = Some (pct_total (g_line_total g) T) \<rparr>)
      (enumerate 0 (head n S)) ! j"
      by (simp add: rr shift_index_def reset_index_drop_def nth_enumerate_eq mk_row_def
          split_beta)
  qed
qed

lemma ranked_table_stable:
  "ranked_table stable_sorter items n =
     Inr (ProductDF (map as_table_row (get_top_products items n)))"
proof (cases "items = []")
  case True
  then show ?thesis
    by (simp add: ranked_table_def get_top_products_def)
next
  case False
  let ?S = "sort_values_desc (groupby_agg items)"
  let ?T = "sum_list (map g_line_total ?S)"
  have ps: "product_summary items = map (\<lambda>g. (g, pct_total (g_line_total g) ?T)) ?S"
    by (simp add: product_summary_def Let_def)
  have "apply_col rename_row (ranked_rows stable_sorter items n) =
      Inr (map (\<lambda>(j, g). \<lparr> t_index = int j + 1, t_SKU = g_sku g, t_Producto = g_name g,
                t_Unidades = IntCell (g_quantity g), t_Ventas = FloatCell (Fin (g_line_total g)),
                t_Pct = FloatCell (pct_total (g_line_total g) ?T) \<rparr>) (enumerate 0 (head n ?S)))"
    unfolding ranked_rows_stable
    by (rule apply_col_map) (auto simp: rename_row_def)
  moreover have "map (\<lambda>(j, g). \<lparr> t_index = int j + 1, t_SKU = g_sku g, t_Producto = g_name g,
                t_Unidades = IntCell (g_quantity g), t_Ventas = FloatCell (Fin (g_line_total g)),
                t_Pct = FloatCell (pct_total (g_line_total g) ?T) \<rparr>) (enumerate 0 (head n ?S)) =
      map as_table_row (get_top_products items n)"
  proof -
    have g: "get_top_products items n =
        rename_rows (map (\<lambda>g. (g, pct_total (g_line_total g) ?T)) (head n ?S))"
      using False by (simp add: get_top_products_def ps head_map)
    show ?thesis
      unfolding g
      by (rule nth_equalityI)
        (simp_all add: length_rename_rows nth_rename_rows nth_enumerate_eq as_table_row_def)
  qed
  ultimately show ?thesis
    using False by (simp add: ranked_table_def)
qed

text \<open>
  With the sorting routine that \<open>sort_values_desc\<close> follows, the table that the call
  returns is the table of \<open>get_top_products\<close>: what is proved of the one holds of the
  other.
\<close>

lemma call_returns_get_top_products:
  assumes "a < length h" and "h ! a = ItemsDF items"
  shows "returned (call_get_top_products stable_sorter h a n) =
    Inr (ProductDF (map as_table_row (get_top_products items n)))"
  by (simp only: returned_call [OF assms] ranked_table_stable)

subsection \<open>Formatting in place\<close>

lemma map_zip_maps: "map f (zip (map F xs) (map G xs)) = map (\<lambda>x. f (F x, G x)) xs"
  by (induction xs) simp_all

lemma format_steps:
  assumes "df < length h" and "h ! df = ProductDF rows0" and "rows0 \<noteq> []"
    and "apply_col fmt_ventas (map t_Ventas rows0) = Inr vs"
    and "apply_col fmt_pct
           (map t_Pct (map (\<lambda>(r, v). r\<lparr>t_Ventas := StrCell v\<rparr>) (zip rows0 vs))) = Inr ps"
    and "apply_col (fmt_unidades L)
           (map t_Unidades (map (\<lambda>(r, p). r\<lparr>t_Pct := StrCell p\<rparr>)
              (zip (map (\<lambda>(r, v). r\<lparr>t_Ventas := StrCell v\<rparr>) (zip rows0 vs)) ps))) = Inr us"
  shows "format_product_table L h df =
    (h[df := ProductDF (map (\<lambda>(r, u). r\<lparr>t_Unidades := StrCell u\<rparr>)
       (zip (map (\<lambda>(r, p). r\<lparr>t_Pct := StrCell p\<rparr>)
          (zip (map (\<lambda>(r, v). r\<lparr>t_Ventas := StrCell v\<rparr>) (zip rows0 vs)) ps)) us))], Inr df)"
  using assms by (simp add: format_product_table_def Let_def)

lemma format_rows:
  assumes "rows \<noteq> []" and "df < length h" and "h ! df = ProductDF (map as_table_row rows)"
  shows "format_product_table L h df = (h[df := ProductDF (map formatted_row rows)], Inr df)"
proof -
  define V where "V = (\<lambda>r::product_row. ''$'' @ fmt_fixed True 2 (Ventas r))"
  define P where "P = (\<lambda>r::product_row. fmt_float False 1 (Pct r) @ ''%'')"
  define U where "U = (\<lambda>r::product_row. (if Unidades r < 0 then ''-'' else []) @
     thousands (str_nat (nat \<bar>Unidades r\<bar>)))"
  define r1 where "r1 = (\<lambda>r::product_row. (as_table_row r)\<lparr>t_Ventas := StrCell (V r)\<rparr>)"
  define r2 where "r2 = (\<lambda>r::product_row. (r1 r)\<lparr>t_Pct := StrCell (P r)\<rparr>)"
  have ne: "map as_table_row rows \<noteq> []"
    using assms(1) by simp
  have rows1: "map (\<lambda>(r, v). r\<lparr>t_Ventas := StrCell v\<rparr>) (zip (map as_table_row rows) (map V rows)) =
      map r1 rows"
    by (simp add: map_zip_maps r1_def)
  have rows2: "map (\<lambda>(r, p). r\<lparr>t_Pct := StrCell p\<rparr>) (zip (map r1 rows) (map P rows)) =
      map r2 rows"
    by (simp add: map_zip_maps r2_def)
  have rows3: "map (\<lambda>(r, u). r\<lparr>t_Unidades := StrCell u\<rparr>) (zip (map r2 rows) (map U rows)) =
      map formatted_row rows"
    by (simp add: map_zip_maps r2_def r1_def formatted_row_def as_table_row_def U_def P_def V_def)
  have v: "apply_col fmt_ventas (map t_Ventas (map as_table_row rows)) = Inr (map V rows)"
    unfolding map_map comp_def
    by (rule apply_col_map) (simp add: as_table_row_def fmt_ventas_def bnd_def V_def)
  have p: "apply_col fmt_pct (map t_Pct (map r1 rows)) = Inr (map P rows)"
    unfolding map_map comp_def
    by (rule apply_col_map) (simp add: r1_def as_table_row_def fmt_pct_def bnd_def P_def)
  have u: "apply_col (fmt_unidades L) (map t_Unidades (map r2 rows)) = Inr (map U rows)"
    unfolding map_map comp_def
    by (rule apply_col_map)
      (simp add: r2_def r1_def as_table_row_def fmt_unidades_def bnd_def U_def)
  from format_steps [OF assms(2,3) ne v p [folded rows1] u [folded rows2, folded rows1]]
  show ?thesis
    by (simp only: rows1 rows2 rows3)
qed

text \<open>
  A call changes no table but the one it is given, creates none, and returns, when it
  returns, the reference it was given.
\<close>

lemma format_product_table_frame:
  assumes "format_product_table L h df = (h', res)"
  shows "length h' = length h \<and> (\<forall>p. p \<noteq> df \<longrightarrow> h' ! p = h ! p) \<and>
    (\<forall>r. res = Inr r \<longrightarrow> r = df)"
  using assms
  by (auto simp: format_product_table_def Let_def
      split: frame.splits if_splits sum.splits)

text \<open>
  C7, as the code has it. The formatting is done in place. For a table as the ranker
  returns it, the call returns the reference it was given, and the table at that
  reference holds afterwards the same rows with their index, SKU and product name and
  with the units, the sales and the percentage as display text; no other table changes.
  An empty table is left as it is, and a table with a row is changed.
\<close>

theorem format_product_table_in_place:
  assumes "df < length h" and "h ! df = ProductDF (map as_table_row rows)"
  shows "format_product_table L h df = (h[df := ProductDF (map formatted_row rows)], Inr df) \<and>
    (rows = [] \<longrightarrow> fst (format_product_table L h df) = h) \<and>
    (rows \<noteq> [] \<longrightarrow> fst (format_product_table L h df) ! df \<noteq> h ! df)"
proof (cases "rows = []")
  case True
  have "h[df := h ! df] = h"
    by (rule list_update_id)
  with True assms show ?thesis
    by (simp add: format_product_table_def)
next
  case False
  have f: "format_product_table L h df = (h[df := ProductDF (map formatted_row rows)], Inr df)"
    by (rule format_rows [OF False assms])
  from False obtain r rs where "rows = r # rs"
    by (cases rows) auto
  then have "map formatted_row rows \<noteq> map as_table_row rows"
    by (simp add: formatted_row_def as_table_row_def)
  with f False assms show ?thesis
    by simp
qed

theorem format_product_table_in_place_witness:
  "(0::nat) < length [ProductDF (map as_table_row (get_top_products three_products 2))] \<and>
   [ProductDF (map as_table_row (get_top_products three_products 2))] ! 0 =
     ProductDF (map as_table_row (get_top_products three_products 2)) \<and>
   format_product_table strict_lib
     [ProductDF (map as_table_row (get_top_products three_products 2))] 0 =
     ([ProductDF (map formatted_row (get_top_products three_products 2))], Inr 0)"
proof -
  have a: "(0::nat) < length [ProductDF (map as_table_row (get_top_products three_products 2))]"
    and b: "[ProductDF (map as_table_row (get_top_products three_products 2))] ! 0 =
     ProductDF (map as_table_row (get_top_products three_products 2))"
    by simp_all
  from format_product_table_in_place [OF a b, of strict_lib, THEN conjunct1] a b show ?thesis
    by simp
qed

text \<open>The display text of the two best of the three products.\<close>

lemma formatted_three_products:
  "map formatted_row (get_top_products three_products 2) =
     [\<lparr> t_index = 1, t_SKU = ''A1'', t_Producto = ''Anvil'', t_Unidades = StrCell ''1'',
        t_Ventas = StrCell ''$50.00'', t_Pct = StrCell ''50.0%'' \<rparr>,
      \<lparr> t_index = 2, t_SKU = ''B2'', t_Producto = ''Bolt'', t_Unidades = StrCell ''3'',
        t_Ventas = StrCell ''$30.00'', t_Pct = StrCell ''30.0%'' \<rparr>]"
  by code_simp

text \<open>
  The claim C7 as stated fails: after the call the table that was passed is not the
  table that it was.
\<close>

theorem format_product_table_mutates:
  "fst (format_product_table strict_lib
     [ProductDF (map as_table_row (get_top_products three_products 2))] 0) \<noteq>
   [ProductDF (map as_table_row (get_top_products three_products 2))]"
  by code_simp

text \<open>
  A second call on the same table raises \<open>ValueError\<close>: the sales are text by then.
\<close>

lemma format_twice_raises:
  "snd (format_product_table strict_lib
     (fst (format_product_table strict_lib
        [ProductDF (map as_table_row (get_top_products three_products 2))] 0)) 0) =
   Inl ValueError"
  by code_simp

end
